theory Spec2Isabelle
  imports Complex_Main
begin

section \<open>The Pomodoro timer hook \<open>usePomodoro\<close>\<close>

text \<open>
  The repository holds two copies of the hook: the documented one that the page
  \<open>Index.tsx\<close> uses (it takes the current task and saves finished work sessions), and a
  plain one that is the same code without \<open>saveSession\<close>. The handlers
  \<open>handleModeChange\<close>, \<open>handleStart\<close>, \<open>handlePause\<close> and \<open>handleReset\<close> are the same text in
  both; \<open>handleSkip\<close>, \<open>updateTimer\<close> and \<open>handleVisibilityChange\<close> are modelled once for each
  copy (the plain ones carry the suffix \<open>_plain\<close>).

  React state (\<open>useState\<close>) and the ref \<open>endTimeRef\<close> are the fields of one record, and a
  handler is a function from the state before the event to the state after it: the setters
  it calls are applied in the order of the calls, so that a later \<open>setTimeLeft\<close> overrides
  an earlier one, as React's batching does. Every handler reads the state of the latest
  render, which is what its \<open>useCallback\<close> dependencies give. \<open>Date.now()\<close> is the
  argument \<open>now\<close>, in milliseconds; all times are JavaScript numbers holding integers,
  modelled as \<open>int\<close>.
\<close>

subsection \<open>Data\<close>

datatype Mode = work | break | longBreak

text \<open>The object \<open>TIMES\<close>: the duration of each mode in seconds.\<close>

fun TIMES :: "Mode \<Rightarrow> int" where
  "TIMES work = 25 * 60"
| "TIMES break = 5 * 60"
| "TIMES longBreak = 15 * 60"

definition SESSIONS_UNTIL_LONG_BREAK :: nat where
  "SESSIONS_UNTIL_LONG_BREAK = 4"

text \<open>The string a value of the TypeScript type \<open>Mode\<close> is at run time.\<close>

fun mode_string :: "Mode \<Rightarrow> string" where
  "mode_string work = ''work''"
| "mode_string break = ''break''"
| "mode_string longBreak = ''longBreak''"

text \<open>
  A row handed to \<open>supabase.from("study_sessions").insert\<close>. The column \<open>mode\<close> is the
  field \<open>row_mode\<close> (the state below has a field \<open>mode\<close> already).
\<close>

record session_row =
  user_id :: string
  row_mode :: string
  duration_minutes :: int
  task_name :: "string option"
  day_of_week :: nat

text \<open>
  The constraint of the migration on the column \<open>mode\<close>:
  \<open>CHECK (mode IN ('pomodoro', 'shortBreak', 'longBreak'))\<close>.
\<close>

definition study_sessions_mode_check :: "session_row \<Rightarrow> bool" where
  "study_sessions_mode_check r =
     (row_mode r = ''pomodoro'' \<or> row_mode r = ''shortBreak'' \<or> row_mode r = ''longBreak'')"

text \<open>The three toasts of \<open>handleSkip\<close>, by their titles.\<close>

datatype toast = Hora_da_pausa_longa | Hora_da_pausa | Vamos_focar

text \<open>
  What the hook reads from outside: the answer of \<open>supabase.auth.getUser()\<close> (it may
  throw, or return a user's id or null), the prop \<open>currentTask\<close>, and the local day of the
  week \<open>new Date().getDay()\<close>.
\<close>

datatype 'a outcome = Throws | Returns 'a

record env =
  getUser :: "string option outcome"
  currentTask :: "string option"
  getDay :: nat

text \<open>
  The state of the hook: the four \<open>useState\<close> cells and \<open>endTimeRef.current\<close>, and what
  the hook has done to the outside: the number of notification sounds played, the toasts
  shown, the rows handed to \<open>insert\<close> and the number of errors written to the console.
\<close>

record pomodoro =
  mode :: Mode
  timeLeft :: int
  isRunning :: bool
  completedSessions :: nat
  endTimeRef :: "int option"
  notifications :: nat
  toasts :: "toast list"
  inserts :: "session_row list"
  console_errors :: nat

definition initial :: pomodoro where
  "initial = \<lparr>mode = work, timeLeft = TIMES work, isRunning = False, completedSessions = 0,
     endTimeRef = None, notifications = 0, toasts = [], inserts = [], console_errors = 0\<rparr>"

subsection \<open>Handlers shared by both copies\<close>

definition handleModeChange :: "Mode \<Rightarrow> pomodoro \<Rightarrow> pomodoro" where
  "handleModeChange newMode s =
     s\<lparr>mode := newMode, timeLeft := TIMES newMode, isRunning := False, endTimeRef := None\<rparr>"

definition handleStart :: "int \<Rightarrow> pomodoro \<Rightarrow> pomodoro" where
  "handleStart now s = s\<lparr>endTimeRef := Some (now + timeLeft s * 1000), isRunning := True\<rparr>"

definition handlePause :: "pomodoro \<Rightarrow> pomodoro" where
  "handlePause s = s\<lparr>isRunning := False, endTimeRef := None\<rparr>"

definition handleReset :: "pomodoro \<Rightarrow> pomodoro" where
  "handleReset s = s\<lparr>timeLeft := TIMES (mode s), isRunning := False, endTimeRef := None\<rparr>"

definition playNotification :: "pomodoro \<Rightarrow> pomodoro" where
  "playNotification s = s\<lparr>notifications := notifications s + 1\<rparr>"

definition toast :: "toast \<Rightarrow> pomodoro \<Rightarrow> pomodoro" where
  "toast t s = s\<lparr>toasts := toasts s @ [t]\<rparr>"

text \<open>
  \<open>Math.ceil(x / 1000)\<close> for an integer \<open>x\<close>, and the expression
  \<open>Math.max(0, Math.ceil((endTimeRef.current - Date.now()) / 1000))\<close>.
\<close>

definition ceil1000 :: "int \<Rightarrow> int" where
  "ceil1000 x = - ((- x) div 1000)"

definition remaining :: "int \<Rightarrow> int \<Rightarrow> int" where
  "remaining endTime now = max 0 (ceil1000 (endTime - now))"

text \<open>\<open>!endTimeRef.current\<close>: true of null and of the number 0.\<close>

fun falsy :: "int option \<Rightarrow> bool" where
  "falsy None = True"
| "falsy (Some e) = (e = 0)"

subsection \<open>The hook with \<open>saveSession\<close>\<close>

text \<open>
  The object that \<open>saveSession\<close> hands to \<open>insert\<close> for the user \<open>uid\<close>.
  \<open>props?.currentTask || null\<close> turns the empty string into null.
\<close>

definition study_session :: "env \<Rightarrow> string \<Rightarrow> Mode \<Rightarrow> session_row" where
  "study_session ev uid sessionMode =
     \<lparr>user_id = uid,
      row_mode = (if sessionMode = work then ''pomodoro'' else mode_string sessionMode),
      duration_minutes = TIMES sessionMode div 60,
      task_name = (case currentTask ev of
                     None \<Rightarrow> None
                   | Some t \<Rightarrow> if t = [] then None else Some t),
      day_of_week = getDay ev\<rparr>"

text \<open>
  The body of the \<open>try\<close> block of \<open>saveSession\<close>: \<open>Inl\<close> is an exception thrown in it,
  which the \<open>catch\<close> of \<open>saveSession\<close> writes to the console.
\<close>

definition saveSession_try :: "env \<Rightarrow> Mode \<Rightarrow> pomodoro \<Rightarrow> unit + pomodoro" where
  "saveSession_try ev sessionMode s =
     (case getUser ev of
        Throws \<Rightarrow> Inl ()
      | Returns None \<Rightarrow> Inr s
      | Returns (Some uid) \<Rightarrow>
          Inr (s\<lparr>inserts := inserts s @ [study_session ev uid sessionMode]\<rparr>))"

definition saveSession :: "env \<Rightarrow> Mode \<Rightarrow> pomodoro \<Rightarrow> pomodoro" where
  "saveSession ev sessionMode s =
     (case saveSession_try ev sessionMode s of
        Inl _ \<Rightarrow> s\<lparr>console_errors := console_errors s + 1\<rparr>
      | Inr s' \<Rightarrow> s')"

definition handleSkip :: "env \<Rightarrow> pomodoro \<Rightarrow> pomodoro" where
  "handleSkip ev s =
     (if mode s = work then
        let newSessions = completedSessions s + 1;
            s1 = s\<lparr>completedSessions := newSessions\<rparr>;
            s2 = saveSession ev work s1
        in if newSessions mod SESSIONS_UNTIL_LONG_BREAK = 0
           then toast Hora_da_pausa_longa (handleModeChange longBreak s2)
           else toast Hora_da_pausa (handleModeChange break s2)
      else toast Vamos_focar (handleModeChange work s))"

definition updateTimer :: "env \<Rightarrow> int \<Rightarrow> pomodoro \<Rightarrow> pomodoro" where
  "updateTimer ev now s =
     (case endTimeRef s of
        None \<Rightarrow> s
      | Some e \<Rightarrow>
          if falsy (Some e) then s
          else let r = remaining e now;
                   s1 = s\<lparr>timeLeft := r\<rparr>
               in if r = 0
                  then handleSkip ev (playNotification (s1\<lparr>isRunning := False, endTimeRef := None\<rparr>))
                  else s1)"

text \<open>
  The listener of \<open>visibilitychange\<close>; \<open>visible\<close> is
  \<open>document.visibilityState === "visible"\<close>.
\<close>

definition handleVisibilityChange :: "env \<Rightarrow> bool \<Rightarrow> int \<Rightarrow> pomodoro \<Rightarrow> pomodoro" where
  "handleVisibilityChange ev visible now s =
     (case endTimeRef s of
        None \<Rightarrow> s
      | Some e \<Rightarrow>
          if visible \<and> isRunning s \<and> \<not> falsy (Some e) then
            let r = remaining e now;
                s1 = s\<lparr>timeLeft := r\<rparr>
            in if r = 0
               then handleSkip ev (playNotification (s1\<lparr>isRunning := False, endTimeRef := None\<rparr>))
               else s1
          else s)"

subsection \<open>The plain hook\<close>

definition handleSkip_plain :: "pomodoro \<Rightarrow> pomodoro" where
  "handleSkip_plain s =
     (if mode s = work then
        let newSessions = completedSessions s + 1;
            s1 = s\<lparr>completedSessions := newSessions\<rparr>
        in if newSessions mod SESSIONS_UNTIL_LONG_BREAK = 0
           then toast Hora_da_pausa_longa (handleModeChange longBreak s1)
           else toast Hora_da_pausa (handleModeChange break s1)
      else toast Vamos_focar (handleModeChange work s))"

definition updateTimer_plain :: "int \<Rightarrow> pomodoro \<Rightarrow> pomodoro" where
  "updateTimer_plain now s =
     (case endTimeRef s of
        None \<Rightarrow> s
      | Some e \<Rightarrow>
          if falsy (Some e) then s
          else let r = remaining e now;
                   s1 = s\<lparr>timeLeft := r\<rparr>
               in if r = 0
                  then handleSkip_plain (playNotification (s1\<lparr>isRunning := False, endTimeRef := None\<rparr>))
                  else s1)"

definition handleVisibilityChange_plain :: "bool \<Rightarrow> int \<Rightarrow> pomodoro \<Rightarrow> pomodoro" where
  "handleVisibilityChange_plain visible now s =
     (case endTimeRef s of
        None \<Rightarrow> s
      | Some e \<Rightarrow>
          if visible \<and> isRunning s \<and> \<not> falsy (Some e) then
            let r = remaining e now;
                s1 = s\<lparr>timeLeft := r\<rparr>
            in if r = 0
               then handleSkip_plain (playNotification (s1\<lparr>isRunning := False, endTimeRef := None\<rparr>))
               else s1
          else s)"

subsection \<open>The play/pause button of \<open>Controls\<close>\<close>

text \<open>\<open>onClick={isRunning ? onPause : onStart}\<close>: the only caller of \<open>handleStart\<close>.\<close>

definition Controls_onClick :: "int \<Rightarrow> pomodoro \<Rightarrow> pomodoro" where
  "Controls_onClick now s = (if isRunning s then handlePause s else handleStart now s)"

subsection \<open>Runs of the hook\<close>

text \<open>
  What can happen to a mounted hook: a call of one of the five handlers it returns, a call
  of \<open>updateTimer\<close> (by the animation frame or by the interval), and a
  \<open>visibilitychange\<close> event. Each comes with the outside world of its moment.
\<close>

datatype event = ModeChange Mode | Start | Pause | Reset | Skip | Tick | VisibilityChange bool

fun dispatch :: "env \<Rightarrow> int \<Rightarrow> event \<Rightarrow> pomodoro \<Rightarrow> pomodoro" where
  "dispatch ev now (ModeChange m) s = handleModeChange m s"
| "dispatch ev now Start s = handleStart now s"
| "dispatch ev now Pause s = handlePause s"
| "dispatch ev now Reset s = handleReset s"
| "dispatch ev now Skip s = handleSkip ev s"
| "dispatch ev now Tick s = updateTimer ev now s"
| "dispatch ev now (VisibilityChange visible) s = handleVisibilityChange ev visible now s"

fun run :: "(env \<times> int \<times> event) list \<Rightarrow> pomodoro \<Rightarrow> pomodoro" where
  "run [] s = s"
| "run ((ev, now, x) # xs) s = run xs (dispatch ev now x s)"

text \<open>
  One interval driven to its natural expiry: \<open>handleStart\<close> at the instant \<open>now\<close>, and
  one \<open>updateTimer\<close> at the instant the countdown ends. \<open>drive k\<close> runs \<open>k\<close> intervals one
  after the other, each started at the instant the one before it expired.
\<close>

definition interval :: "env \<Rightarrow> int \<times> pomodoro \<Rightarrow> int \<times> pomodoro" where
  "interval ev c =
     (case c of (now, s) \<Rightarrow>
        (now + timeLeft s * 1000, updateTimer ev (now + timeLeft s * 1000) (handleStart now s)))"

fun drive :: "env \<Rightarrow> nat \<Rightarrow> int \<times> pomodoro \<Rightarrow> int \<times> pomodoro" where
  "drive ev 0 c = c"
| "drive ev (Suc k) c = interval ev (drive ev k c)"

definition interval_plain :: "int \<times> pomodoro \<Rightarrow> int \<times> pomodoro" where
  "interval_plain c =
     (case c of (now, s) \<Rightarrow>
        (now + timeLeft s * 1000, updateTimer_plain (now + timeLeft s * 1000) (handleStart now s)))"

fun drive_plain :: "nat \<Rightarrow> int \<times> pomodoro \<Rightarrow> int \<times> pomodoro" where
  "drive_plain 0 c = c"
| "drive_plain (Suc k) c = interval_plain (drive_plain k c)"

text \<open>
  One stretch of running time \<open>(t, ds, e)\<close>: \<open>handleStart\<close> at the instant \<open>t\<close>, a
  recomputation \<open>d\<close> milliseconds later for every \<open>d\<close> of \<open>ds\<close>, a last recomputation \<open>e\<close>
  milliseconds after the start and \<open>handlePause\<close> at that same instant. The timer has then
  run for \<open>e\<close> milliseconds. \<open>stretches\<close> is a sequence of them, \<open>running_ms\<close> the time the
  timer has run in all of them together and \<open>whole_seconds\<close> the whole seconds of every
  stretch.
\<close>

fun ticks :: "int \<Rightarrow> int list \<Rightarrow> pomodoro \<Rightarrow> pomodoro" where
  "ticks t [] s = s"
| "ticks t (d # ds) s = ticks t ds (updateTimer_plain (t + d) s)"

definition stretch :: "int \<times> int list \<times> int \<Rightarrow> pomodoro \<Rightarrow> pomodoro" where
  "stretch x s =
     (case x of (t, ds, e) \<Rightarrow>
        handlePause (updateTimer_plain (t + e) (ticks t ds (handleStart t s))))"

fun stretches :: "(int \<times> int list \<times> int) list \<Rightarrow> pomodoro \<Rightarrow> pomodoro" where
  "stretches [] s = s"
| "stretches (x # xs) s = stretches xs (stretch x s)"

fun running_ms :: "(int \<times> int list \<times> int) list \<Rightarrow> int" where
  "running_ms [] = 0"
| "running_ms ((t, ds, e) # xs) = e + running_ms xs"

fun whole_seconds :: "(int \<times> int list \<times> int) list \<Rightarrow> int" where
  "whole_seconds [] = 0"
| "whole_seconds ((t, ds, e) # xs) = e div 1000 + whole_seconds xs"

text \<open>
  The stretches that end before the countdown does: with \<open>r\<close> seconds left at its start,
  every recomputation of a stretch comes less than \<open>r\<close> seconds after the start, and no
  stretch starts before the epoch or runs for a negative time.
\<close>

fun unexpired :: "(int \<times> int list \<times> int) list \<Rightarrow> int \<Rightarrow> bool" where
  "unexpired [] r = True"
| "unexpired ((t, ds, e) # xs) r =
     (0 \<le> t \<and> 0 \<le> e \<and> e < r * 1000 \<and> list_all (\<lambda>d. d < r * 1000) ds \<and>
      unexpired xs (r - e div 1000))"

subsection \<open>Views of the state, invariants and example states\<close>

text \<open>
  The observable state of the timer: mode, remaining seconds, running flag, number of
  completed work sessions and target end instant.
\<close>

definition timer_state :: "pomodoro \<Rightarrow> Mode \<times> int \<times> bool \<times> nat \<times> int option" where
  "timer_state s = (mode s, timeLeft s, isRunning s, completedSessions s, endTimeRef s)"

text \<open>
  A clock and a state at rest at the start of a work interval after \<open>j\<close> completed work
  sessions, and at the start of the break that follows the \<open>j\<close>-th.
\<close>

definition at_focus :: "nat \<Rightarrow> int \<times> pomodoro \<Rightarrow> bool" where
  "at_focus j c = (0 \<le> fst c \<and> timer_state (snd c) = (work, TIMES work, False, j, None))"

definition at_break :: "nat \<Rightarrow> int \<times> pomodoro \<Rightarrow> bool" where
  "at_break j c = (0 \<le> fst c \<and>
     timer_state (snd c) = (if j mod 4 = 0 then (longBreak, TIMES longBreak, False, j, None)
                            else (break, TIMES break, False, j, None)))"

text \<open>An outside world with a signed-in user, for the examples.\<close>

definition ev0 :: env where
  "ev0 = \<lparr>getUser = Returns (Some ''u1''), currentTask = Some ''math'', getDay = 2\<rparr>"

text \<open>The same world with nobody signed in.\<close>

definition anonymous :: env where
  "anonymous = \<lparr>getUser = Returns None, currentTask = Some ''math'', getDay = 2\<rparr>"

text \<open>The events that recompute the remaining time.\<close>

fun recomputation :: "event \<Rightarrow> bool" where
  "recomputation Tick = True"
| "recomputation (VisibilityChange v) = True"
| "recomputation x = False"

text \<open>
  Two states for the examples: the timer started with ten seconds left, and the work
  timer half a second after its start, after one recomputation.
\<close>

definition background :: pomodoro where
  "background = handleStart 1000 (initial\<lparr>timeLeft := 10\<rparr>)"

definition half_second_in :: pomodoro where
  "half_second_in = updateTimer_plain 1500 (handleStart 1000 initial)"

text \<open>
  More states and a run for the examples: the break after the first work session, the
  work timer one minute after its start, and a run of two work sessions, the first ended
  by the clock and the second skipped, followed by a long look away during the break.
\<close>

definition on_break :: pomodoro where
  "on_break = handleSkip ev0 initial"

definition skipped_early :: pomodoro where
  "skipped_early = updateTimer ev0 61000 (handleStart 1000 initial)"

definition two_sessions :: "(env \<times> int \<times> event) list" where
  "two_sessions = [(ev0, 1000, Start), (ev0, 1501000, Tick), (ev0, 1502000, Skip),
     (ev0, 1503000, Start), (ev0, 1600000, Skip), (ev0, 1600500, Start),
     (ev0, 1900500, VisibilityChange True)]"

section \<open>Properties\<close>

subsection \<open>The remaining time\<close>

text \<open>
  The model of \<open>Math.ceil(x / 1000)\<close> is the ceiling of the quotient of real numbers.
\<close>

lemma ceil1000_real: "ceil1000 x = \<lceil>real_of_int x / 1000\<rceil>"
proof -
  have "\<lceil>real_of_int x / real_of_int 1000\<rceil> = - ((- x) div 1000)"
    by (rule ceiling_divide_eq_div)
  then show ?thesis by (simp add: ceil1000_def)
qed

lemma remaining_real: "remaining e now = max 0 \<lceil>real_of_int (e - now) / 1000\<rceil>"
  by (simp add: remaining_def ceil1000_real)

lemma remaining_zero_iff: "remaining e now = 0 \<longleftrightarrow> e \<le> now"
  unfolding remaining_def ceil1000_def by (auto simp: max_def)

lemma remaining_after: "d < r * 1000 \<Longrightarrow> remaining (now + r * 1000) (now + d) = r - d div 1000"
proof -
  assume a: "d < r * 1000"
  have "ceil1000 (r * 1000 - d) = r - d div 1000"
    unfolding ceil1000_def by simp
  moreover have "0 < r - d div 1000" using a by linarith
  ultimately show ?thesis by (simp add: remaining_def max_def algebra_simps)
qed

lemma updateTimer_running:
  assumes "endTimeRef s = Some e" "e \<noteq> 0"
  shows "updateTimer ev now s =
    (if remaining e now = 0
     then handleSkip ev (playNotification (s\<lparr>timeLeft := remaining e now, isRunning := False, endTimeRef := None\<rparr>))
     else s\<lparr>timeLeft := remaining e now\<rparr>)"
  using assms by (simp add: updateTimer_def Let_def)

lemma updateTimer_plain_running:
  assumes "endTimeRef s = Some e" "e \<noteq> 0"
  shows "updateTimer_plain now s =
    (if remaining e now = 0
     then handleSkip_plain (playNotification (s\<lparr>timeLeft := remaining e now, isRunning := False, endTimeRef := None\<rparr>))
     else s\<lparr>timeLeft := remaining e now\<rparr>)"
  using assms by (simp add: updateTimer_plain_def Let_def)

lemma handleVisibilityChange_running:
  assumes "endTimeRef s = Some e" "e \<noteq> 0" "isRunning s"
  shows "handleVisibilityChange ev True now s = updateTimer ev now s"
  using assms by (simp add: updateTimer_def handleVisibilityChange_def)

lemma handleVisibilityChange_plain_running:
  assumes "endTimeRef s = Some e" "e \<noteq> 0" "isRunning s"
  shows "handleVisibilityChange_plain True now s = updateTimer_plain now s"
  using assms by (simp add: updateTimer_plain_def handleVisibilityChange_plain_def)

lemma start_then_recompute:
  assumes "0 \<le> now" "d < timeLeft s * 1000" "0 \<le> d"
  shows "updateTimer ev (now + d) (handleStart now s) =
         s\<lparr>endTimeRef := Some (now + timeLeft s * 1000), isRunning := True, timeLeft := timeLeft s - d div 1000\<rparr>"
    and "updateTimer_plain (now + d) (handleStart now s) =
         s\<lparr>endTimeRef := Some (now + timeLeft s * 1000), isRunning := True, timeLeft := timeLeft s - d div 1000\<rparr>"
proof -
  have ne: "now + timeLeft s * 1000 \<noteq> 0" using assms by linarith
  have r: "remaining (now + timeLeft s * 1000) (now + d) = timeLeft s - d div 1000"
    using assms(2) by (rule remaining_after)
  have p: "timeLeft s - d div 1000 \<noteq> 0" using assms by linarith
  show "updateTimer ev (now + d) (handleStart now s) =
         s\<lparr>endTimeRef := Some (now + timeLeft s * 1000), isRunning := True, timeLeft := timeLeft s - d div 1000\<rparr>"
    using ne r p by (simp add: updateTimer_def handleStart_def Let_def)
  show "updateTimer_plain (now + d) (handleStart now s) =
         s\<lparr>endTimeRef := Some (now + timeLeft s * 1000), isRunning := True, timeLeft := timeLeft s - d div 1000\<rparr>"
    using ne r p by (simp add: updateTimer_plain_def handleStart_def Let_def)
qed

text \<open>
  C1. While the timer runs (\<open>endTimeRef\<close> holds the target instant \<open>e\<close>), a recomputation
  at the instant \<open>now\<close> writes \<open>max(0, ceil((e - now) / 1000))\<close> to \<open>timeLeft\<close>, in both copies
  of the hook and through the visibility listener as through \<open>updateTimer\<close>: when that
  number is positive nothing else changes, and when it is zero the timer stops and the
  transition of \<open>handleSkip\<close> follows. So after \<open>handleStart\<close> at the instant \<open>t\<close> and a
  recomputation \<open>d\<close> milliseconds later, with \<open>d\<close> less than the time that was left, the
  timer still runs and \<open>timeLeft\<close> has dropped by the whole seconds of \<open>d\<close>: less than one
  second away from the time left minus \<open>d\<close>, and exactly that for \<open>d\<close> a whole number \<open>k\<close> of
  seconds.
\<close>

theorem C1_recompute_from_target:
  "(endTimeRef s = Some e \<and> e \<noteq> 0 \<and> isRunning s \<longrightarrow>
      (let r = max 0 \<lceil>real_of_int (e - now) / 1000\<rceil> in
        updateTimer ev now s =
          (if r = 0
           then handleSkip ev (playNotification (s\<lparr>timeLeft := r, isRunning := False, endTimeRef := None\<rparr>))
           else s\<lparr>timeLeft := r\<rparr>) \<and>
        updateTimer_plain now s =
          (if r = 0
           then handleSkip_plain (playNotification (s\<lparr>timeLeft := r, isRunning := False, endTimeRef := None\<rparr>))
           else s\<lparr>timeLeft := r\<rparr>) \<and>
        handleVisibilityChange ev True now s = updateTimer ev now s \<and>
        handleVisibilityChange_plain True now s = updateTimer_plain now s)) \<and>
   (0 \<le> t \<and> 0 \<le> d \<and> d < timeLeft s * 1000 \<longrightarrow>
      (let s' = updateTimer ev (t + d) (handleStart t s);
           p' = updateTimer_plain (t + d) (handleStart t s) in
        timeLeft s' = timeLeft s - d div 1000 \<and> isRunning s' \<and>
        timeLeft p' = timeLeft s - d div 1000 \<and> isRunning p' \<and>
        \<bar>real_of_int (timeLeft s') - (real_of_int (timeLeft s) - real_of_int d / 1000)\<bar> < 1 \<and>
        (d = k * 1000 \<longrightarrow> timeLeft s' = timeLeft s - k)))"
proof (intro conjI impI)
  assume a: "endTimeRef s = Some e \<and> e \<noteq> 0 \<and> isRunning s"
  show "let r = max 0 \<lceil>real_of_int (e - now) / 1000\<rceil> in
        updateTimer ev now s =
          (if r = 0
           then handleSkip ev (playNotification (s\<lparr>timeLeft := r, isRunning := False, endTimeRef := None\<rparr>))
           else s\<lparr>timeLeft := r\<rparr>) \<and>
        updateTimer_plain now s =
          (if r = 0
           then handleSkip_plain (playNotification (s\<lparr>timeLeft := r, isRunning := False, endTimeRef := None\<rparr>))
           else s\<lparr>timeLeft := r\<rparr>) \<and>
        handleVisibilityChange ev True now s = updateTimer ev now s \<and>
        handleVisibilityChange_plain True now s = updateTimer_plain now s"
    unfolding Let_def remaining_real [symmetric]
    using a updateTimer_running [of s e ev now] updateTimer_plain_running [of s e now]
      handleVisibilityChange_running [of s e ev now] handleVisibilityChange_plain_running [of s e now]
    by simp
next
  assume b: "0 \<le> t \<and> 0 \<le> d \<and> d < timeLeft s * 1000"
  have fl: "real_of_int (d div 1000) \<le> real_of_int d / 1000" "real_of_int d / 1000 < real_of_int (d div 1000) + 1"
    by (simp_all add: floor_divide_of_int_eq [symmetric] del: floor_divide_of_int_eq)
  show "let s' = updateTimer ev (t + d) (handleStart t s);
           p' = updateTimer_plain (t + d) (handleStart t s) in
        timeLeft s' = timeLeft s - d div 1000 \<and> isRunning s' \<and>
        timeLeft p' = timeLeft s - d div 1000 \<and> isRunning p' \<and>
        \<bar>real_of_int (timeLeft s') - (real_of_int (timeLeft s) - real_of_int d / 1000)\<bar> < 1 \<and>
        (d = k * 1000 \<longrightarrow> timeLeft s' = timeLeft s - k)"
    using b fl by (simp add: start_then_recompute Let_def)
qed

text \<open>C1 at the work timer started at the instant 1000 and looked at 2.5 seconds later.\<close>

theorem C1_recompute_from_target_witness:
  "endTimeRef (handleStart 1000 initial) = Some 1501000 \<and> (1501000::int) \<noteq> 0 \<and>
   isRunning (handleStart 1000 initial) \<and>
   updateTimer ev0 3500 (handleStart 1000 initial) = (handleStart 1000 initial)\<lparr>timeLeft := 1498\<rparr> \<and>
   (0::int) \<le> 1000 \<and> (0::int) \<le> 2500 \<and> 2500 < timeLeft initial * 1000 \<and>
   timeLeft (updateTimer_plain (1000 + 2500) (handleStart 1000 initial)) = 1498 \<and>
   isRunning (updateTimer_plain (1000 + 2500) (handleStart 1000 initial))"
  using C1_recompute_from_target [of "handleStart 1000 initial" 1501000 3500 ev0 1000 2500 0]
    C1_recompute_from_target [of initial 1501000 3500 ev0 1000 2500 0]
  by (simp add: handleStart_def initial_def Let_def)

subsection \<open>The transition to the next mode\<close>

lemma saveSession_timer [simp]:
  "mode (saveSession ev m s) = mode s" "timeLeft (saveSession ev m s) = timeLeft s"
  "isRunning (saveSession ev m s) = isRunning s" "completedSessions (saveSession ev m s) = completedSessions s"
  "endTimeRef (saveSession ev m s) = endTimeRef s" "notifications (saveSession ev m s) = notifications s"
  "toasts (saveSession ev m s) = toasts s"
  by (simp_all add: saveSession_def saveSession_try_def split: outcome.splits option.splits)

lemma handleSkip_timer:
  "timer_state (handleSkip ev s) =
     (if mode s = work
      then (if (completedSessions s + 1) mod 4 = 0 then longBreak else break,
            if (completedSessions s + 1) mod 4 = 0 then TIMES longBreak else TIMES break,
            False, completedSessions s + 1, None)
      else (work, TIMES work, False, completedSessions s, None))"
  by (simp add: timer_state_def handleSkip_def Let_def handleModeChange_def toast_def
      SESSIONS_UNTIL_LONG_BREAK_def)

lemma handleSkip_plain_timer:
  "timer_state (handleSkip_plain s) = timer_state (handleSkip ev s)"
  by (simp add: timer_state_def handleSkip_def handleSkip_plain_def Let_def handleModeChange_def toast_def
      SESSIONS_UNTIL_LONG_BREAK_def)

lemma handleSkip_notifications [simp]:
  "notifications (handleSkip ev s) = notifications s"
  "notifications (handleSkip_plain s) = notifications s"
  by (simp_all add: handleSkip_def handleSkip_plain_def Let_def handleModeChange_def toast_def)

lemma handleSkip_timer_frame:
  "mode a = mode b \<Longrightarrow> completedSessions a = completedSessions b \<Longrightarrow>
   timer_state (handleSkip ev a) = timer_state (handleSkip ev b)"
  by (simp add: handleSkip_timer)

lemma expiry_is_skip:
  assumes "endTimeRef s = Some e" "e \<noteq> 0" "e \<le> now"
  shows "timer_state (updateTimer ev now s) = timer_state (handleSkip ev s)"
    and "timer_state (updateTimer_plain now s) = timer_state (handleSkip ev s)"
proof -
  have z: "remaining e now = 0" using assms(3) by (simp add: remaining_zero_iff)
  show "timer_state (updateTimer ev now s) = timer_state (handleSkip ev s)"
    using assms(1,2) z
    by (simp add: updateTimer_running handleSkip_timer playNotification_def)
  show "timer_state (updateTimer_plain now s) = timer_state (handleSkip ev s)"
    using assms(1,2) z
    by (simp add: updateTimer_plain_running handleSkip_plain_timer [of _ ev] handleSkip_timer playNotification_def)
qed

lemma interval_timer:
  assumes "0 \<le> t" "0 < timeLeft s"
  shows "fst (interval ev (t, s)) = t + timeLeft s * 1000"
    and "timer_state (snd (interval ev (t, s))) = timer_state (handleSkip ev s)"
    and "fst (interval_plain (t, s)) = t + timeLeft s * 1000"
    and "timer_state (snd (interval_plain (t, s))) = timer_state (handleSkip ev s)"
proof -
  let ?s = "handleStart t s"
  have e: "endTimeRef ?s = Some (t + timeLeft s * 1000)" by (simp add: handleStart_def)
  have ne: "t + timeLeft s * 1000 \<noteq> 0" using assms by linarith
  have m: "mode ?s = mode s" "completedSessions ?s = completedSessions s"
    by (simp_all add: handleStart_def)
  show "fst (interval ev (t, s)) = t + timeLeft s * 1000" by (simp add: interval_def)
  show "fst (interval_plain (t, s)) = t + timeLeft s * 1000" by (simp add: interval_plain_def)
  have "timer_state (updateTimer ev (t + timeLeft s * 1000) ?s) = timer_state (handleSkip ev ?s)"
    using e ne by (rule expiry_is_skip(1)) simp
  then show "timer_state (snd (interval ev (t, s))) = timer_state (handleSkip ev s)"
    using m by (simp add: interval_def handleSkip_timer)
  have "timer_state (updateTimer_plain (t + timeLeft s * 1000) ?s) = timer_state (handleSkip ev ?s)"
    using e ne by (rule expiry_is_skip(2)) simp
  then show "timer_state (snd (interval_plain (t, s))) = timer_state (handleSkip ev s)"
    using m by (simp add: interval_plain_def handleSkip_timer)
qed

lemma focus_to_break:
  assumes "at_focus j c"
  shows "at_break (Suc j) (interval ev c)" "at_break (Suc j) (interval_plain c)"
proof -
  obtain t s where c: "c = (t, s)" by (cases c)
  have a: "0 \<le> t" "0 < timeLeft s" "mode s = work" "completedSessions s = j"
    using assms by (simp_all add: c at_focus_def timer_state_def)
  show "at_break (Suc j) (interval ev c)"
    unfolding at_break_def c using a interval_timer(1) [of t s ev] interval_timer(2) [of t s ev] 
    by (simp add: handleSkip_timer)
  show "at_break (Suc j) (interval_plain c)"
    unfolding at_break_def c using a interval_timer(3) [of t s] interval_timer(4) [of t s ev]
    by (simp add: handleSkip_timer)
qed

lemma break_to_focus:
  assumes "at_break j c"
  shows "at_focus j (interval ev c)" "at_focus j (interval_plain c)"
proof -
  obtain t s where c: "c = (t, s)" by (cases c)
  have a: "0 \<le> t" "0 < timeLeft s" "mode s \<noteq> work" "completedSessions s = j"
    using assms by (simp_all add: c at_break_def timer_state_def split: if_splits)
  show "at_focus j (interval ev c)"
    unfolding at_focus_def c using a interval_timer(1) [of t s ev] interval_timer(2) [of t s ev] 
    by (simp add: handleSkip_timer)
  show "at_focus j (interval_plain c)"
    unfolding at_focus_def c using a interval_timer(3) [of t s] interval_timer(4) [of t s ev]
    by (simp add: handleSkip_timer)
qed

lemma drive_even: "at_focus c0 c \<Longrightarrow> at_focus (c0 + j) (drive ev (2 * j) c)"
  by (induction j) (simp_all add: focus_to_break(1) break_to_focus(1))

lemma drive_plain_even: "at_focus c0 c \<Longrightarrow> at_focus (c0 + j) (drive_plain (2 * j) c)"
  by (induction j) (simp_all add: focus_to_break(2) break_to_focus(2))

lemma drive_odd: "at_focus c0 c \<Longrightarrow> at_break (c0 + j + 1) (drive ev (2 * j + 1) c)"
  using focus_to_break(1) [OF drive_even, of c0 c j ev ev] by simp

lemma drive_plain_odd: "at_focus c0 c \<Longrightarrow> at_break (c0 + j + 1) (drive_plain (2 * j + 1) c)"
  using focus_to_break(2) [OF drive_plain_even, of c0 c j] by simp

lemma at_focus_initial: "0 \<le> now \<Longrightarrow> at_focus 0 (now, initial)"
  by (simp add: at_focus_def timer_state_def initial_def)

lemma nth_completion:
  assumes "0 \<le> t"
  shows "timer_state (snd (drive ev (2 * j + 1) (t, initial))) =
           (if (j + 1) mod 4 = 0 then (longBreak, TIMES longBreak, False, j + 1, None)
            else (break, TIMES break, False, j + 1, None))"
    and "timer_state (snd (drive_plain (2 * j + 1) (t, initial))) =
           (if (j + 1) mod 4 = 0 then (longBreak, TIMES longBreak, False, j + 1, None)
            else (break, TIMES break, False, j + 1, None))"
  using drive_odd [OF at_focus_initial [OF assms], of j ev]
    drive_plain_odd [OF at_focus_initial [OF assms], of j]
  by (simp_all add: at_break_def)

lemma nth_completion_mode:
  assumes "0 \<le> t"
  shows "mode (snd (drive ev (2 * j + 1) (t, initial))) = (if (j + 1) mod 4 = 0 then longBreak else break)"
    and "mode (snd (drive_plain (2 * j + 1) (t, initial))) = (if (j + 1) mod 4 = 0 then longBreak else break)"
  using nth_completion(1) [OF assms, of ev j] nth_completion(2) [OF assms, of j] by (simp_all add: timer_state_def split: if_splits)

text \<open>
  C2. \<open>handleSkip\<close> in work mode raises the count of completed sessions to \<open>n\<close> and goes to
  the long break when \<open>n mod 4 = 0\<close> and to the short break otherwise; in a break it goes
  to work mode and leaves the count; the new mode is not running, has no target instant
  and has its full duration left. The plain copy does the same, and so does a
  recomputation at or after the target instant (the natural expiry). Driving intervals
  from the initial state to their natural expiry, the \<open>(j+1)\<close>-th work session (the
  interval number \<open>2j + 1\<close>) ends in the long break when \<open>(j+1) mod 4 = 0\<close> and in the short
  break otherwise: the first three end in the short break, the fourth and the eighth in
  the long break.
\<close>

theorem C2_skip_policy:
  "timer_state (handleSkip ev s) =
     (if mode s = work
      then (if (completedSessions s + 1) mod 4 = 0 then longBreak else break,
            if (completedSessions s + 1) mod 4 = 0 then TIMES longBreak else TIMES break,
            False, completedSessions s + 1, None)
      else (work, TIMES work, False, completedSessions s, None)) \<and>
   timer_state (handleSkip_plain s) = timer_state (handleSkip ev s) \<and>
   (endTimeRef s = Some e \<and> e \<noteq> 0 \<and> e \<le> now \<longrightarrow>
      timer_state (updateTimer ev now s) = timer_state (handleSkip ev s) \<and>
      timer_state (updateTimer_plain now s) = timer_state (handleSkip_plain s)) \<and>
   (0 \<le> t \<longrightarrow>
      timer_state (snd (drive ev (2 * j + 1) (t, initial))) =
        (if (j + 1) mod 4 = 0 then (longBreak, TIMES longBreak, False, j + 1, None)
         else (break, TIMES break, False, j + 1, None)) \<and>
      timer_state (snd (drive_plain (2 * j + 1) (t, initial))) =
        timer_state (snd (drive ev (2 * j + 1) (t, initial))) \<and>
      map (\<lambda>k. mode (snd (drive ev k (t, initial)))) [1, 3, 5, 7, 15] =
        [break, break, break, longBreak, longBreak] \<and>
      map (\<lambda>k. mode (snd (drive_plain k (t, initial)))) [1, 3, 5, 7, 15] =
        [break, break, break, longBreak, longBreak])"
proof (intro conjI impI)
  show "timer_state (handleSkip ev s) =
     (if mode s = work
      then (if (completedSessions s + 1) mod 4 = 0 then longBreak else break,
            if (completedSessions s + 1) mod 4 = 0 then TIMES longBreak else TIMES break,
            False, completedSessions s + 1, None)
      else (work, TIMES work, False, completedSessions s, None))"
    by (rule handleSkip_timer)
  show "timer_state (handleSkip_plain s) = timer_state (handleSkip ev s)"
    by (rule handleSkip_plain_timer)
next
  assume a: "endTimeRef s = Some e \<and> e \<noteq> 0 \<and> e \<le> now"
  then show "timer_state (updateTimer ev now s) = timer_state (handleSkip ev s)"
    by (simp add: expiry_is_skip(1))
  from a show "timer_state (updateTimer_plain now s) = timer_state (handleSkip_plain s)"
    by (simp add: expiry_is_skip(2) [of s e now ev] handleSkip_plain_timer [of s ev])
next
  assume t: "0 \<le> t"
  show "timer_state (snd (drive ev (2 * j + 1) (t, initial))) =
        (if (j + 1) mod 4 = 0 then (longBreak, TIMES longBreak, False, j + 1, None)
         else (break, TIMES break, False, j + 1, None))"
    using t by (rule nth_completion(1))
  show "timer_state (snd (drive_plain (2 * j + 1) (t, initial))) =
        timer_state (snd (drive ev (2 * j + 1) (t, initial)))"
    using nth_completion(1) [OF t, of ev j] nth_completion(2) [OF t, of j] by simp
  show "map (\<lambda>k. mode (snd (drive ev k (t, initial)))) [1, 3, 5, 7, 15] =
        [break, break, break, longBreak, longBreak]"
    using nth_completion_mode(1) [OF t, of ev 0] nth_completion_mode(1) [OF t, of ev 1]
      nth_completion_mode(1) [OF t, of ev 2] nth_completion_mode(1) [OF t, of ev 3]
      nth_completion_mode(1) [OF t, of ev 7]
    by simp
  show "map (\<lambda>k. mode (snd (drive_plain k (t, initial)))) [1, 3, 5, 7, 15] =
        [break, break, break, longBreak, longBreak]"
    using nth_completion_mode(2) [OF t, of 0] nth_completion_mode(2) [OF t, of 1]
      nth_completion_mode(2) [OF t, of 2] nth_completion_mode(2) [OF t, of 3]
      nth_completion_mode(2) [OF t, of 7]
    by simp
qed

text \<open>
  C2 at the first work session started at the instant 1000 and expired, and at the
  fourth.
\<close>

theorem C2_skip_policy_witness:
  "endTimeRef (handleStart 1000 initial) = Some 1501000 \<and> (1501000::int) \<noteq> 0 \<and>
   (1501000::int) \<le> 1501000 \<and> (0::int) \<le> 1000 \<and>
   timer_state (updateTimer ev0 1501000 (handleStart 1000 initial)) = (break, 300, False, 1, None) \<and>
   timer_state (updateTimer_plain 1501000 (handleStart 1000 initial)) = (break, 300, False, 1, None) \<and>
   timer_state (snd (drive ev0 7 (1000, initial))) = (longBreak, 900, False, 4, None)"
  using C2_skip_policy [of ev0 "handleStart 1000 initial" 1501000 1501000 1000 3]
  by (simp add: handleStart_def initial_def handleSkip_timer)

subsection \<open>Expiry happens once\<close>

lemma stopped_updateTimer:
  "endTimeRef s = None \<Longrightarrow> updateTimer ev now s = s"
  "endTimeRef s = None \<Longrightarrow> updateTimer_plain now s = s"
  "endTimeRef s = None \<Longrightarrow> handleVisibilityChange ev v now s = s"
  "endTimeRef s = None \<Longrightarrow> handleVisibilityChange_plain v now s = s"
  by (simp_all add: updateTimer_def updateTimer_plain_def handleVisibilityChange_def
      handleVisibilityChange_plain_def)

lemma stopped_ticks: "endTimeRef s = None \<Longrightarrow> ticks t ds s = s"
  by (induction ds) (simp_all add: stopped_updateTimer)

lemma stopped_run:
  "endTimeRef s = None \<Longrightarrow> list_all (\<lambda>(ev, now, x). recomputation x) xs \<Longrightarrow> run xs s = s"
proof (induction xs)
  case Nil
  then show ?case by simp
next
  case (Cons a xs)
  obtain ev now x where a: "a = (ev, now, x)" by (cases a)
  from Cons.prems(2) have r: "recomputation x" and rest: "list_all (\<lambda>(ev, now, x). recomputation x) xs"
    by (simp_all add: a)
  from r have "dispatch ev now x s = s"
    using Cons.prems(1) by (cases x) (simp_all add: stopped_updateTimer)
  then show ?case using Cons.IH [OF Cons.prems(1) rest] by (simp add: a)
qed

lemma handleSkip_stops [simp]:
  "endTimeRef (handleSkip ev s) = None" "endTimeRef (handleSkip_plain s) = None"
  "isRunning (handleSkip ev s) = False" "isRunning (handleSkip_plain s) = False"
  using handleSkip_timer [of ev s] handleSkip_plain_timer [of s ev]
  by (simp_all add: timer_state_def split: if_splits)

lemma expiry_state:
  assumes "endTimeRef s = Some e" "e \<noteq> 0" "e \<le> now"
  shows "updateTimer ev now s =
           handleSkip ev (playNotification (s\<lparr>timeLeft := 0, isRunning := False, endTimeRef := None\<rparr>))"
    and "updateTimer_plain now s =
           handleSkip_plain (playNotification (s\<lparr>timeLeft := 0, isRunning := False, endTimeRef := None\<rparr>))"
proof -
  have z: "remaining e now = 0" using assms(3) by (simp add: remaining_zero_iff)
  show "updateTimer ev now s =
           handleSkip ev (playNotification (s\<lparr>timeLeft := 0, isRunning := False, endTimeRef := None\<rparr>))"
    using assms(1,2) z by (simp add: updateTimer_running)
  show "updateTimer_plain now s =
           handleSkip_plain (playNotification (s\<lparr>timeLeft := 0, isRunning := False, endTimeRef := None\<rparr>))"
    using assms(1,2) z by (simp add: updateTimer_plain_running)
qed

lemma handleSkip_completed:
  "completedSessions (handleSkip ev s) = completedSessions s + (if mode s = work then 1 else 0)"
  "completedSessions (handleSkip_plain s) = completedSessions s + (if mode s = work then 1 else 0)"
  using handleSkip_timer [of ev s] handleSkip_plain_timer [of s ev]
  by (simp_all add: timer_state_def split: if_splits)

text \<open>
  C3. The first recomputation at or after the target instant of a running timer, by
  \<open>updateTimer\<close> or by the visibility listener, stops the timer, clears the target
  instant, plays the notification once and makes the transition of \<open>handleSkip\<close> once
  (one more completed session after a work interval). The state it leaves is not changed
  by any later recomputation: by \<open>updateTimer\<close> or the visibility listener at any
  instant, or by any sequence of them. This holds for both copies of the hook.
\<close>

theorem C3_expiry_exactly_once:
  "endTimeRef s = Some e \<and> e \<noteq> 0 \<and> isRunning s \<and> e \<le> now \<longrightarrow>
     (let s' = updateTimer_plain now s in
        s' = handleSkip_plain (playNotification (s\<lparr>timeLeft := 0, isRunning := False, endTimeRef := None\<rparr>)) \<and>
        handleVisibilityChange_plain True now s = s' \<and>
        notifications s' = notifications s + 1 \<and>
        completedSessions s' = completedSessions s + (if mode s = work then 1 else 0) \<and>
        \<not> isRunning s' \<and> endTimeRef s' = None \<and>
        updateTimer_plain now' s' = s' \<and> handleVisibilityChange_plain v now' s' = s' \<and>
        ticks t ds s' = s') \<and>
     (let s' = updateTimer ev now s in
        s' = handleSkip ev (playNotification (s\<lparr>timeLeft := 0, isRunning := False, endTimeRef := None\<rparr>)) \<and>
        handleVisibilityChange ev True now s = s' \<and>
        notifications s' = notifications s + 1 \<and>
        completedSessions s' = completedSessions s + (if mode s = work then 1 else 0) \<and>
        \<not> isRunning s' \<and> endTimeRef s' = None \<and>
        (list_all (\<lambda>(ev, now, x). recomputation x) xs \<longrightarrow> run xs s' = s'))"
proof
  assume a: "endTimeRef s = Some e \<and> e \<noteq> 0 \<and> isRunning s \<and> e \<le> now"
  let ?stop = "playNotification (s\<lparr>timeLeft := 0, isRunning := False, endTimeRef := None\<rparr>)"
  have p: "updateTimer_plain now s = handleSkip_plain ?stop"
    and q: "updateTimer ev now s = handleSkip ev ?stop"
    using a by (simp_all add: expiry_state)
  have vp: "handleVisibilityChange_plain True now s = updateTimer_plain now s"
    and vq: "handleVisibilityChange ev True now s = updateTimer ev now s"
    using a by (simp_all add: handleVisibilityChange_plain_running handleVisibilityChange_running)
  have st: "mode ?stop = mode s" "completedSessions ?stop = completedSessions s"
    "notifications ?stop = notifications s + 1"
    by (simp_all add: playNotification_def)
  have plain: "let s' = updateTimer_plain now s in
        s' = handleSkip_plain ?stop \<and>
        handleVisibilityChange_plain True now s = s' \<and>
        notifications s' = notifications s + 1 \<and>
        completedSessions s' = completedSessions s + (if mode s = work then 1 else 0) \<and>
        \<not> isRunning s' \<and> endTimeRef s' = None \<and>
        updateTimer_plain now' s' = s' \<and> handleVisibilityChange_plain v now' s' = s' \<and>
        ticks t ds s' = s'"
    unfolding Let_def p vp
    by (simp add: st handleSkip_completed stopped_updateTimer stopped_ticks)
  have save: "let s' = updateTimer ev now s in
        s' = handleSkip ev ?stop \<and>
        handleVisibilityChange ev True now s = s' \<and>
        notifications s' = notifications s + 1 \<and>
        completedSessions s' = completedSessions s + (if mode s = work then 1 else 0) \<and>
        \<not> isRunning s' \<and> endTimeRef s' = None \<and>
        (list_all (\<lambda>(ev, now, x). recomputation x) xs \<longrightarrow> run xs s' = s')"
    unfolding Let_def q vq
    by (simp add: st handleSkip_completed stopped_run)
  from plain save show "(let s' = updateTimer_plain now s in
        s' = handleSkip_plain ?stop \<and>
        handleVisibilityChange_plain True now s = s' \<and>
        notifications s' = notifications s + 1 \<and>
        completedSessions s' = completedSessions s + (if mode s = work then 1 else 0) \<and>
        \<not> isRunning s' \<and> endTimeRef s' = None \<and>
        updateTimer_plain now' s' = s' \<and> handleVisibilityChange_plain v now' s' = s' \<and>
        ticks t ds s' = s') \<and>
     (let s' = updateTimer ev now s in
        s' = handleSkip ev ?stop \<and>
        handleVisibilityChange ev True now s = s' \<and>
        notifications s' = notifications s + 1 \<and>
        completedSessions s' = completedSessions s + (if mode s = work then 1 else 0) \<and>
        \<not> isRunning s' \<and> endTimeRef s' = None \<and>
        (list_all (\<lambda>(ev, now, x). recomputation x) xs \<longrightarrow> run xs s' = s'))"
    by (rule conjI)
qed

text \<open>
  C3 at the timer started with ten seconds left and brought back to the foreground
  fifteen seconds later.
\<close>

theorem C3_expiry_exactly_once_witness:
  "endTimeRef background = Some 11000 \<and> (11000::int) \<noteq> 0 \<and> isRunning background \<and>
   (11000::int) \<le> 16000 \<and>
   notifications (handleVisibilityChange_plain True 16000 background) = 1 \<and>
   completedSessions (handleVisibilityChange_plain True 16000 background) = 1 \<and>
   mode (handleVisibilityChange_plain True 16000 background) = break \<and>
   updateTimer_plain 17000 (handleVisibilityChange_plain True 16000 background) =
     handleVisibilityChange_plain True 16000 background \<and>
   list_all (\<lambda>(ev, now, x). recomputation x) [(ev0, 17000, Tick), (ev0, 18000, VisibilityChange True)] \<and>
   run [(ev0, 17000, Tick), (ev0, 18000, VisibilityChange True)] (updateTimer ev0 16000 background) =
     updateTimer ev0 16000 background \<and>
   notifications (updateTimer ev0 16000 background) = 1"
  using C3_expiry_exactly_once [of background 11000 16000 17000 True 0 "[]" ev0
      "[(ev0, 17000, Tick), (ev0, 18000, VisibilityChange True)]"]
  by (simp add: background_def handleStart_def initial_def Let_def updateTimer_def
      updateTimer_plain_def handleVisibilityChange_def handleVisibilityChange_plain_def
      remaining_def ceil1000_def handleSkip_def handleSkip_plain_def playNotification_def
      handleModeChange_def toast_def SESSIONS_UNTIL_LONG_BREAK_def saveSession_def
      saveSession_try_def study_session_def ev0_def)

subsection \<open>Start while running\<close>

text \<open>
  C4, as the code has it. \<open>handleStart\<close> has no guard: on a running timer it sets the
  target instant to \<open>now\<close> plus the remaining seconds shown and changes nothing else, so
  it leaves the state as it was only when the target instant had that value already. The
  play/pause button of \<open>Controls\<close> calls \<open>handlePause\<close>, not \<open>handleStart\<close>, while the timer
  runs.
\<close>

theorem C4_start_while_running:
  "isRunning s \<longrightarrow>
     handleStart now s = s\<lparr>endTimeRef := Some (now + timeLeft s * 1000)\<rparr> \<and>
     (handleStart now s = s \<longleftrightarrow> endTimeRef s = Some (now + timeLeft s * 1000)) \<and>
     Controls_onClick now s = handlePause s"
proof
  assume r: "isRunning s"
  have 1: "handleStart now s = s\<lparr>endTimeRef := Some (now + timeLeft s * 1000)\<rparr>"
    using r by (simp add: handleStart_def)
  have 2: "handleStart now s = s \<longleftrightarrow> endTimeRef s = Some (now + timeLeft s * 1000)"
  proof
    assume "handleStart now s = s"
    then have "endTimeRef (handleStart now s) = endTimeRef s" by simp
    then show "endTimeRef s = Some (now + timeLeft s * 1000)" by (simp add: handleStart_def)
  next
    assume "endTimeRef s = Some (now + timeLeft s * 1000)"
    then show "handleStart now s = s" using r by (simp add: handleStart_def)
  qed
  have 3: "Controls_onClick now s = handlePause s" using r by (simp add: Controls_onClick_def)
  from 1 2 3 show "handleStart now s = s\<lparr>endTimeRef := Some (now + timeLeft s * 1000)\<rparr> \<and>
     (handleStart now s = s \<longleftrightarrow> endTimeRef s = Some (now + timeLeft s * 1000)) \<and>
     Controls_onClick now s = handlePause s" by simp
qed

text \<open>C4 half a second after the start of the work timer.\<close>

theorem C4_start_while_running_witness:
  "isRunning half_second_in \<and>
   endTimeRef (handleStart 1500 half_second_in) = Some 1501500 \<and>
   Controls_onClick 1500 half_second_in = handlePause half_second_in"
  using C4_start_while_running [of half_second_in 1500]
  by (simp add: half_second_in_def updateTimer_plain_def handleStart_def initial_def Let_def
      remaining_def ceil1000_def)

text \<open>
  A second \<open>handleStart\<close> half a second after the first one moves the target instant
  from 1501000 to 1501500: it is not a no-op.
\<close>

theorem C4_start_is_noop_counterexample:
  "isRunning half_second_in \<and>
   endTimeRef half_second_in = Some 1501000 \<and>
   endTimeRef (handleStart 1500 half_second_in) = Some 1501500 \<and>
   timer_state (handleStart 1500 half_second_in) \<noteq> timer_state half_second_in"
  by (simp add: half_second_in_def updateTimer_plain_def handleStart_def initial_def Let_def
      remaining_def ceil1000_def timer_state_def)

subsection \<open>Pause and resume\<close>

lemma recompute_keeps_target:
  assumes "endTimeRef s = Some E" "E \<noteq> 0" "now < E"
  shows "updateTimer_plain now s = s\<lparr>timeLeft := remaining E now\<rparr>"
proof -
  have "remaining E now \<noteq> 0" using assms(3) by (simp add: remaining_zero_iff)
  then show ?thesis using assms(1,2) by (simp add: updateTimer_plain_running)
qed

lemma ticks_keep_target:
  assumes "endTimeRef s = Some E" "E \<noteq> 0" "list_all (\<lambda>d. t + d < E) ds"
  shows "\<exists>r. ticks t ds s = s\<lparr>timeLeft := r\<rparr>"
  using assms
proof (induction ds arbitrary: s)
  case Nil
  have "s = s\<lparr>timeLeft := timeLeft s\<rparr>" by simp
  then show ?case by (metis ticks.simps(1))
next
  case (Cons d ds)
  let ?s = "s\<lparr>timeLeft := remaining E (t + d)\<rparr>"
  have step: "updateTimer_plain (t + d) s = ?s"
    using Cons.prems by (simp add: recompute_keeps_target)
  have "endTimeRef ?s = Some E" using Cons.prems(1) by simp
  from Cons.IH [OF this Cons.prems(2)] Cons.prems(3)
  obtain r where "ticks t ds ?s = ?s\<lparr>timeLeft := r\<rparr>" by auto
  then have "ticks t (d # ds) s = s\<lparr>timeLeft := r\<rparr>" by (simp add: step)
  then show ?case by blast
qed

lemma stretch_effect:
  assumes "0 \<le> t" "0 \<le> e" "e < timeLeft s * 1000" "list_all (\<lambda>d. d < timeLeft s * 1000) ds"
  shows "stretch (t, ds, e) s =
           s\<lparr>timeLeft := timeLeft s - e div 1000, isRunning := False, endTimeRef := None\<rparr>"
proof -
  let ?E = "t + timeLeft s * 1000"
  let ?s0 = "handleStart t s"
  have E: "endTimeRef ?s0 = Some ?E" by (simp add: handleStart_def)
  have ne: "?E \<noteq> 0" using assms(1,2,3) by linarith
  have "list_all (\<lambda>d. t + d < ?E) ds" using assms(4) by (simp add: list_all_iff)
  from ticks_keep_target [OF E ne this]
  obtain r where r: "ticks t ds ?s0 = ?s0\<lparr>timeLeft := r\<rparr>" by blast
  have "endTimeRef (?s0\<lparr>timeLeft := r\<rparr>) = Some ?E" by (simp add: handleStart_def)
  moreover have "t + e < ?E" using assms(3) by simp
  ultimately have u: "updateTimer_plain (t + e) (?s0\<lparr>timeLeft := r\<rparr>) =
      ?s0\<lparr>timeLeft := r\<rparr>\<lparr>timeLeft := remaining ?E (t + e)\<rparr>"
    using ne by (simp add: recompute_keeps_target)
  have v: "remaining ?E (t + e) = timeLeft s - e div 1000"
    using assms(3) by (rule remaining_after)
  have "stretch (t, ds, e) s = handlePause (updateTimer_plain (t + e) (?s0\<lparr>timeLeft := r\<rparr>))"
    by (simp add: stretch_def r)
  also have "\<dots> = handlePause (?s0\<lparr>timeLeft := r\<rparr>\<lparr>timeLeft := timeLeft s - e div 1000\<rparr>)"
    by (simp only: u v)
  also have "\<dots> = s\<lparr>timeLeft := timeLeft s - e div 1000, isRunning := False, endTimeRef := None\<rparr>"
    by (simp add: handlePause_def handleStart_def)
  finally show ?thesis .
qed

lemma stretches_effect:
  "unexpired xs (timeLeft s) \<Longrightarrow>
   stretches xs s =
     (if xs = [] then s
      else s\<lparr>timeLeft := timeLeft s - whole_seconds xs, isRunning := False, endTimeRef := None\<rparr>)"
proof (induction xs arbitrary: s)
  case Nil
  then show ?case by simp
next
  case (Cons x xs)
  obtain t ds e where x: "x = (t, ds, e)" by (cases x)
  let ?s = "s\<lparr>timeLeft := timeLeft s - e div 1000, isRunning := False, endTimeRef := None\<rparr>"
  from Cons.prems have p: "0 \<le> t" "0 \<le> e" "e < timeLeft s * 1000"
    "list_all (\<lambda>d. d < timeLeft s * 1000) ds" and rest: "unexpired xs (timeLeft s - e div 1000)"
    by (simp_all add: x)
  have st: "stretch (t, ds, e) s = ?s" using p by (rule stretch_effect)
  have "unexpired xs (timeLeft ?s)" using rest by simp
  from Cons.IH [OF this] show ?case
    by (cases "xs = []") (simp_all add: st x algebra_simps)
qed

lemma whole_second_bounds:
  fixes e :: int
  shows "e div 1000 * 1000 \<le> e" "e \<le> e div 1000 * 1000 + 999"
proof -
  have d: "e = e div 1000 * 1000 + e mod 1000" by simp
  have m: "0 \<le> e mod 1000" "e mod 1000 < 1000" by simp_all
  show "e div 1000 * 1000 \<le> e" using d m(1) by linarith
  show "e \<le> e div 1000 * 1000 + 999" using d m(2) by linarith
qed

lemma running_ms_lower: "whole_seconds xs * 1000 \<le> running_ms xs"
proof (induction xs)
  case Nil
  then show ?case by simp
next
  case (Cons x xs)
  obtain t ds e where x: "x = (t, ds, e)" by (cases x)
  show ?case using Cons whole_second_bounds(1) [of e] by (simp add: x algebra_simps)
qed

lemma running_ms_upper: "running_ms xs \<le> whole_seconds xs * 1000 + 999 * int (length xs)"
proof (induction xs)
  case Nil
  then show ?case by simp
next
  case (Cons x xs)
  obtain t ds e where x: "x = (t, ds, e)" by (cases x)
  show ?case using Cons whole_second_bounds(2) [of e] by (simp add: x algebra_simps)
qed

lemma running_ms_whole:
  "list_all (\<lambda>(t, ds, e). e mod 1000 = 0) xs \<Longrightarrow> running_ms xs = whole_seconds xs * 1000"
proof (induction xs)
  case Nil
  then show ?case by simp
next
  case (Cons x xs)
  obtain t ds e where x: "x = (t, ds, e)" by (cases x)
  from Cons.prems have "e mod 1000 = 0" by (simp add: x)
  then have "e div 1000 * 1000 = e" using div_mult_mod_eq [of e 1000] by simp
  with Cons show ?case by (simp add: x algebra_simps)
qed

text \<open>
  C5, as the code has it. \<open>handlePause\<close> keeps the whole seconds last written to
  \<open>timeLeft\<close>, which \<open>Math.ceil\<close> rounded up, and \<open>handleStart\<close> counts down from them
  again. So over stretches of running time that each end in a recomputation followed at
  once by \<open>handlePause\<close>, none of them reaching the end of the countdown, \<open>timeLeft\<close>
  drops by the whole seconds of every stretch: the time the timer ran is at least the
  seconds \<open>timeLeft\<close> dropped by and exceeds them by less than one second for every
  stretch, and equals them when every stretch lasts a whole number of seconds. Mode and
  completed sessions are as before.
\<close>

theorem C5_pause_resume_whole_seconds:
  "unexpired xs (timeLeft s) \<longrightarrow>
     timeLeft (stretches xs s) = timeLeft s - whole_seconds xs \<and>
     mode (stretches xs s) = mode s \<and>
     completedSessions (stretches xs s) = completedSessions s \<and>
     (xs \<noteq> [] \<longrightarrow> \<not> isRunning (stretches xs s) \<and> endTimeRef (stretches xs s) = None) \<and>
     (timeLeft s - timeLeft (stretches xs s)) * 1000 \<le> running_ms xs \<and>
     running_ms xs \<le> (timeLeft s - timeLeft (stretches xs s)) * 1000 + 999 * int (length xs) \<and>
     (list_all (\<lambda>(t, ds, e). e mod 1000 = 0) xs \<longrightarrow>
        running_ms xs = (timeLeft s - timeLeft (stretches xs s)) * 1000)"
proof
  assume u: "unexpired xs (timeLeft s)"
  have e: "stretches xs s =
     (if xs = [] then s
      else s\<lparr>timeLeft := timeLeft s - whole_seconds xs, isRunning := False, endTimeRef := None\<rparr>)"
    using u by (rule stretches_effect)
  have w: "whole_seconds xs = 0" if "xs = []" using that by simp
  have t: "timeLeft (stretches xs s) = timeLeft s - whole_seconds xs"
    using w by (simp add: e)
  have d: "timeLeft s - timeLeft (stretches xs s) = whole_seconds xs"
    by (simp add: t)
  show "timeLeft (stretches xs s) = timeLeft s - whole_seconds xs \<and>
     mode (stretches xs s) = mode s \<and>
     completedSessions (stretches xs s) = completedSessions s \<and>
     (xs \<noteq> [] \<longrightarrow> \<not> isRunning (stretches xs s) \<and> endTimeRef (stretches xs s) = None) \<and>
     (timeLeft s - timeLeft (stretches xs s)) * 1000 \<le> running_ms xs \<and>
     running_ms xs \<le> (timeLeft s - timeLeft (stretches xs s)) * 1000 + 999 * int (length xs) \<and>
     (list_all (\<lambda>(t, ds, e). e mod 1000 = 0) xs \<longrightarrow>
        running_ms xs = (timeLeft s - timeLeft (stretches xs s)) * 1000)"
    unfolding d using t running_ms_lower [of xs] running_ms_upper [of xs] running_ms_whole [of xs]
    by (simp add: e)
qed

text \<open>
  C5 at two stretches of 2.5 and 3 seconds (five seconds counted for five and a half
  run), and at two stretches of 2 and 3 seconds.
\<close>

theorem C5_pause_resume_whole_seconds_witness:
  "unexpired [(1000, [400, 900], 2500), (9000, [], 3000)] (timeLeft initial) \<and>
   timeLeft (stretches [(1000, [400, 900], 2500), (9000, [], 3000)] initial) = 1495 \<and>
   running_ms [(1000, [400, 900], 2500), (9000, [], 3000)] = 5500 \<and>
   list_all (\<lambda>(t, ds, e). e mod 1000 = 0)
     ([(1000, [], 2000), (9000, [], 3000)] :: (int \<times> int list \<times> int) list) \<and>
   unexpired [(1000, [], 2000), (9000, [], 3000)] (timeLeft initial) \<and>
   timeLeft (stretches [(1000, [], 2000), (9000, [], 3000)] initial) = 1495"
  using C5_pause_resume_whole_seconds [of "[(1000, [400, 900], 2500), (9000, [], 3000)]" initial]
    C5_pause_resume_whole_seconds [of "[(1000, [], 2000), (9000, [], 3000)]" initial]
  by (simp add: initial_def stretch_def handleStart_def handlePause_def updateTimer_plain_def
      remaining_def ceil1000_def Let_def)

text \<open>
  Two stretches of half a second each: the timer has run for a second and still shows
  the full duration of the work mode.
\<close>

theorem C5_time_is_lost_counterexample:
  "running_ms [(1000, [], 500), (5000, [], 500)] = 1000 \<and>
   timeLeft initial = TIMES work \<and>
   timeLeft (stretches [(1000, [], 500), (5000, [], 500)] initial) = TIMES work \<and>
   running_ms [(1000, [], 500), (5000, [], 500)] \<noteq>
     (TIMES work - timeLeft (stretches [(1000, [], 500), (5000, [], 500)] initial)) * 1000"
  by (simp add: initial_def stretch_def handleStart_def handlePause_def updateTimer_plain_def
      remaining_def ceil1000_def Let_def)

subsection \<open>Rows handed to the store\<close>

lemma saveSession_inserts:
  "inserts (saveSession ev m s) =
     (case getUser ev of Returns (Some uid) \<Rightarrow> inserts s @ [study_session ev uid m] | _ \<Rightarrow> inserts s)"
  by (simp add: saveSession_def saveSession_try_def split: outcome.splits option.splits)

lemma handleSkip_inserts:
  "inserts (handleSkip ev s) =
     (if mode s = work
      then (case getUser ev of Returns (Some uid) \<Rightarrow> inserts s @ [study_session ev uid work]
            | _ \<Rightarrow> inserts s)
      else inserts s)"
  by (simp add: handleSkip_def Let_def handleModeChange_def toast_def saveSession_inserts
      split: outcome.splits option.splits)

lemma handleSkip_inserts_frame:
  "mode a = mode b \<Longrightarrow> inserts a = inserts b \<Longrightarrow> inserts (handleSkip ev a) = inserts (handleSkip ev b)"
  by (simp add: handleSkip_inserts split: outcome.splits option.splits)

lemma updateTimer_inserts:
  "inserts (updateTimer ev now s) = inserts s \<or>
   inserts (updateTimer ev now s) = inserts (handleSkip ev s)"
proof (cases "endTimeRef s")
  case None
  then show ?thesis by (simp add: stopped_updateTimer)
next
  case (Some e)
  show ?thesis
  proof (cases "e = 0")
    case True
    then show ?thesis using Some by (simp add: updateTimer_def)
  next
    case False
    have "inserts (handleSkip ev (playNotification
            (s\<lparr>timeLeft := r, isRunning := False, endTimeRef := None\<rparr>))) =
          inserts (handleSkip ev s)" for r
      by (rule handleSkip_inserts_frame) (simp_all add: playNotification_def)
    then show ?thesis using Some False by (simp add: updateTimer_running)
  qed
qed

lemma handleVisibilityChange_inserts:
  "inserts (handleVisibilityChange ev v now s) = inserts s \<or>
   inserts (handleVisibilityChange ev v now s) = inserts (handleSkip ev s)"
proof (cases "v \<and> isRunning s \<and> \<not> falsy (endTimeRef s)")
  case True
  then obtain e where "endTimeRef s = Some e" "e \<noteq> 0" by (cases "endTimeRef s") auto
  with True have "handleVisibilityChange ev v now s = updateTimer ev now s"
    by (simp add: handleVisibilityChange_running)
  then show ?thesis using updateTimer_inserts [of ev now s] by simp
next
  case False
  then have "handleVisibilityChange ev v now s = s"
    by (auto simp: handleVisibilityChange_def split: option.splits)
  then show ?thesis by simp
qed

lemma dispatch_inserts:
  "inserts (dispatch ev now x s) = inserts s \<or>
   (\<exists>uid. getUser ev = Returns (Some uid) \<and>
      inserts (dispatch ev now x s) = inserts s @ [study_session ev uid work])"
proof -
  have skip: "inserts (handleSkip ev s) = inserts s \<or>
    (\<exists>uid. getUser ev = Returns (Some uid) \<and>
      inserts (handleSkip ev s) = inserts s @ [study_session ev uid work])"
    by (simp add: handleSkip_inserts split: outcome.splits option.splits)
  show ?thesis
  proof (cases x)
    case (ModeChange m)
    then show ?thesis by (simp add: handleModeChange_def)
  next
    case Start
    then show ?thesis by (simp add: handleStart_def)
  next
    case Pause
    then show ?thesis by (simp add: handlePause_def)
  next
    case Reset
    then show ?thesis by (simp add: handleReset_def)
  next
    case Skip
    then show ?thesis using skip by simp
  next
    case Tick
    then show ?thesis using skip updateTimer_inserts [of ev now s] by auto
  next
    case (VisibilityChange v)
    then show ?thesis using skip handleVisibilityChange_inserts [of ev v now s] by auto
  qed
qed

lemma run_inserts:
  "list_all P (inserts s) \<Longrightarrow> (\<And>ev uid. P (study_session ev uid work)) \<Longrightarrow>
   list_all P (inserts (run xs s))"
proof (induction xs arbitrary: s)
  case Nil
  then show ?case by simp
next
  case (Cons a xs)
  obtain ev now x where a: "a = (ev, now, x)" by (cases a)
  have "list_all P (inserts (dispatch ev now x s))"
    using dispatch_inserts [of ev now x s] Cons.prems by auto
  from Cons.IH [OF this Cons.prems(2)] show ?case by (simp add: a)
qed

lemma study_session_work:
  "row_mode (study_session ev uid work) = ''pomodoro''"
  "duration_minutes (study_session ev uid work) = 25"
  "study_sessions_mode_check (study_session ev uid work)"
  by (simp_all add: study_session_def study_sessions_mode_check_def)

lemma running_expiry_inserts:
  assumes "endTimeRef s = Some e" "e \<noteq> 0" "e \<le> now"
  shows "inserts (updateTimer ev now s) = inserts (handleSkip ev s)"
proof -
  have "inserts (handleSkip ev (playNotification
          (s\<lparr>timeLeft := 0, isRunning := False, endTimeRef := None\<rparr>))) = inserts (handleSkip ev s)"
    by (rule handleSkip_inserts_frame) (simp_all add: playNotification_def)
  then show ?thesis using assms by (simp add: expiry_state(1))
qed

lemma running_tick_inserts:
  assumes "endTimeRef s = Some e" "now < e"
  shows "inserts (updateTimer ev now s) = inserts s"
proof (cases "e = 0")
  case True
  then show ?thesis using assms(1) by (simp add: updateTimer_def)
next
  case False
  have "remaining e now \<noteq> 0" using assms(2) by (simp add: remaining_zero_iff)
  then show ?thesis using assms(1) False by (simp add: updateTimer_running)
qed

text \<open>
  C6, as the code has it. \<open>handleSkip\<close> in work mode hands exactly one row to \<open>insert\<close>
  when \<open>getUser\<close> returns a user, and none when it returns null or throws; in a break it
  hands none. A recomputation at or after the target instant hands over what \<open>handleSkip\<close>
  does, one before the target instant nothing, and \<open>handleModeChange\<close>, \<open>handleStart\<close>,
  \<open>handlePause\<close> and \<open>handleReset\<close> nothing.
\<close>

theorem C6_one_row_per_focus_completion:
  "(mode s = work \<and> getUser ev = Returns (Some uid) \<longrightarrow>
      inserts (handleSkip ev s) = inserts s @ [study_session ev uid work]) \<and>
   (mode s = work \<and> (getUser ev = Returns None \<or> getUser ev = Throws) \<longrightarrow>
      inserts (handleSkip ev s) = inserts s) \<and>
   (mode s \<noteq> work \<longrightarrow> inserts (handleSkip ev s) = inserts s) \<and>
   (endTimeRef s = Some e \<and> e \<noteq> 0 \<and> e \<le> now \<longrightarrow>
      inserts (updateTimer ev now s) = inserts (handleSkip ev s) \<and>
      (isRunning s \<longrightarrow> inserts (handleVisibilityChange ev True now s) = inserts (handleSkip ev s))) \<and>
   (endTimeRef s = Some e \<and> now < e \<longrightarrow> inserts (updateTimer ev now s) = inserts s) \<and>
   inserts (handleModeChange m s) = inserts s \<and>
   inserts (handleStart now s) = inserts s \<and>
   inserts (handlePause s) = inserts s \<and>
   inserts (handleReset s) = inserts s"
proof (intro conjI impI)
  assume "mode s = work \<and> getUser ev = Returns (Some uid)"
  then show "inserts (handleSkip ev s) = inserts s @ [study_session ev uid work]"
    by (simp add: handleSkip_inserts)
next
  assume "mode s = work \<and> (getUser ev = Returns None \<or> getUser ev = Throws)"
  then show "inserts (handleSkip ev s) = inserts s"
    by (auto simp: handleSkip_inserts)
next
  assume "mode s \<noteq> work"
  then show "inserts (handleSkip ev s) = inserts s"
    by (simp add: handleSkip_inserts)
next
  assume a: "endTimeRef s = Some e \<and> e \<noteq> 0 \<and> e \<le> now"
  then show u: "inserts (updateTimer ev now s) = inserts (handleSkip ev s)"
    by (simp add: running_expiry_inserts)
  assume "isRunning s"
  with a have "handleVisibilityChange ev True now s = updateTimer ev now s"
    by (simp add: handleVisibilityChange_running)
  then show "inserts (handleVisibilityChange ev True now s) = inserts (handleSkip ev s)"
    using u by simp
next
  assume "endTimeRef s = Some e \<and> now < e"
  then show "inserts (updateTimer ev now s) = inserts s"
    by (simp add: running_tick_inserts)
next
  show "inserts (handleModeChange m s) = inserts s" by (simp add: handleModeChange_def)
  show "inserts (handleStart now s) = inserts s" by (simp add: handleStart_def)
  show "inserts (handlePause s) = inserts s" by (simp add: handlePause_def)
  show "inserts (handleReset s) = inserts s" by (simp add: handleReset_def)
qed

text \<open>
  C6 at the first work session, skipped and expired, with and without a user, and at the
  break after it.
\<close>

theorem C6_one_row_per_focus_completion_witness:
  "mode initial = work \<and> getUser ev0 = Returns (Some ''u1'') \<and>
   inserts (handleSkip ev0 initial) = [study_session ev0 ''u1'' work] \<and>
   getUser anonymous = Returns None \<and> inserts (handleSkip anonymous initial) = [] \<and>
   mode on_break \<noteq> work \<and> inserts (handleSkip ev0 on_break) = inserts on_break \<and>
   endTimeRef (handleStart 1000 initial) = Some 1501000 \<and> (1501000::int) \<noteq> 0 \<and>
   (1501000::int) \<le> 1501000 \<and> isRunning (handleStart 1000 initial) \<and>
   inserts (updateTimer ev0 1501000 (handleStart 1000 initial)) = [study_session ev0 ''u1'' work] \<and>
   inserts (handleVisibilityChange ev0 True 1501000 (handleStart 1000 initial)) =
     [study_session ev0 ''u1'' work] \<and>
   (2000::int) < 1501000 \<and> inserts (updateTimer ev0 2000 (handleStart 1000 initial)) = []"
  using C6_one_row_per_focus_completion [of initial ev0 "''u1''" 1501000 1501000 work]
    C6_one_row_per_focus_completion [of initial anonymous "''u1''" 1501000 1501000 work]
    C6_one_row_per_focus_completion [of on_break ev0 "''u1''" 1501000 1501000 work]
    C6_one_row_per_focus_completion [of "handleStart 1000 initial" ev0 "''u1''" 1501000 1501000 work]
    C6_one_row_per_focus_completion [of "handleStart 1000 initial" ev0 "''u1''" 1501000 2000 work]
  by (simp add: initial_def ev0_def anonymous_def on_break_def handleStart_def handleSkip_inserts
      handleSkip_def Let_def handleModeChange_def toast_def saveSession_def saveSession_try_def
      SESSIONS_UNTIL_LONG_BREAK_def)

text \<open>
  With nobody signed in, a work session is completed (by skip or by the clock) and no row
  is handed to the store.
\<close>

theorem C6_no_row_without_user_counterexample:
  "mode initial = work \<and>
   completedSessions (handleSkip anonymous initial) = 1 \<and>
   mode (handleSkip anonymous initial) = break \<and>
   inserts (handleSkip anonymous initial) = [] \<and>
   completedSessions (updateTimer anonymous 1501000 (handleStart 1000 initial)) = 1 \<and>
   inserts (updateTimer anonymous 1501000 (handleStart 1000 initial)) = []"
  by (simp add: initial_def anonymous_def handleStart_def handleSkip_def Let_def
      handleModeChange_def toast_def saveSession_def saveSession_try_def updateTimer_def
      remaining_def ceil1000_def playNotification_def SESSIONS_UNTIL_LONG_BREAK_def)

text \<open>
  C7. The row \<open>handleSkip\<close> hands over for a work session has \<open>duration_minutes\<close> equal to
  the duration of the work mode in minutes, 25, whatever time was left when the session
  was skipped; every row handed over in any run of the hook from its initial state has,
  and a run keeps it so from any state.
\<close>

theorem C7_nominal_duration:
  "(mode s = work \<and> getUser ev = Returns (Some uid) \<longrightarrow>
      inserts (handleSkip ev s) = inserts s @ [study_session ev uid work] \<and>
      duration_minutes (last (inserts (handleSkip ev s))) = 25) \<and>
   duration_minutes (study_session ev uid work) = TIMES work div 60 \<and>
   TIMES work div 60 = 25 \<and>
   list_all (\<lambda>r. duration_minutes r = 25) (inserts (run xs initial)) \<and>
   (list_all (\<lambda>r. duration_minutes r = 25) (inserts s) \<longrightarrow>
      list_all (\<lambda>r. duration_minutes r = 25) (inserts (run xs s)))"
proof (intro conjI impI)
  assume "mode s = work \<and> getUser ev = Returns (Some uid)"
  then show i: "inserts (handleSkip ev s) = inserts s @ [study_session ev uid work]"
    by (simp add: handleSkip_inserts)
  show "duration_minutes (last (inserts (handleSkip ev s))) = 25"
    by (simp add: i study_session_work(2))
next
  show "duration_minutes (study_session ev uid work) = TIMES work div 60"
    by (simp add: study_session_def)
  show "TIMES work div 60 = 25" by simp
  have "list_all (\<lambda>r. duration_minutes r = 25) (inserts initial)" by (simp add: initial_def)
  then show "list_all (\<lambda>r. duration_minutes r = 25) (inserts (run xs initial))"
    by (rule run_inserts) (rule study_session_work(2))
next
  assume "list_all (\<lambda>r. duration_minutes r = 25) (inserts s)"
  then show "list_all (\<lambda>r. duration_minutes r = 25) (inserts (run xs s))"
    by (rule run_inserts) (rule study_session_work(2))
qed

text \<open>C7 at a work session skipped one minute after its start.\<close>

theorem C7_nominal_duration_witness:
  "mode skipped_early = work \<and> timeLeft skipped_early = 1440 \<and>
   getUser ev0 = Returns (Some ''u1'') \<and>
   duration_minutes (last (inserts (handleSkip ev0 skipped_early))) = 25 \<and>
   list_all (\<lambda>r. duration_minutes r = 25) (inserts skipped_early) \<and>
   map duration_minutes (inserts (run [(ev0, 1000, Start), (ev0, 61000, Tick), (ev0, 61500, Skip)] initial)) = [25]"
  using C7_nominal_duration [of skipped_early ev0 "''u1''"
      "[(ev0, 1000, Start), (ev0, 61000, Tick), (ev0, 61500, Skip)]"]
    C7_nominal_duration [of initial ev0 "''u1''"
      "[(ev0, 1000, Start), (ev0, 61000, Tick), (ev0, 61500, Skip)]"]
  by (simp add: skipped_early_def initial_def ev0_def handleStart_def updateTimer_def
      remaining_def ceil1000_def Let_def handleSkip_def handleModeChange_def toast_def
      saveSession_def saveSession_try_def study_session_def SESSIONS_UNTIL_LONG_BREAK_def)

lemma anonymous_skip:
  assumes "getUser ev = Returns None"
  shows "saveSession ev m s = s" "handleSkip ev s = handleSkip_plain s"
proof -
  show s: "saveSession ev m s = s" for m s
    using assms by (simp add: saveSession_def saveSession_try_def)
  show "handleSkip ev s = handleSkip_plain s"
    by (simp add: handleSkip_def handleSkip_plain_def Let_def s)
qed

text \<open>
  C9. When \<open>getUser\<close> returns null, \<open>saveSession\<close> throws nothing, writes nothing to the
  console and hands no row to the store: \<open>handleSkip\<close> is then the \<open>handleSkip\<close> of the
  plain hook, so a work session is counted and the mode changes as usual, by skip and by
  natural expiry.
\<close>

theorem C9_no_user_no_write:
  "getUser ev = Returns None \<longrightarrow>
     saveSession_try ev m s = Inr s \<and>
     saveSession ev m s = s \<and>
     handleSkip ev s = handleSkip_plain s \<and>
     inserts (handleSkip ev s) = inserts s \<and>
     console_errors (handleSkip ev s) = console_errors s \<and>
     (mode s = work \<longrightarrow>
        completedSessions (handleSkip ev s) = completedSessions s + 1 \<and>
        mode (handleSkip ev s) = (if (completedSessions s + 1) mod 4 = 0 then longBreak else break) \<and>
        timeLeft (handleSkip ev s) = TIMES (mode (handleSkip ev s)) \<and>
        \<not> isRunning (handleSkip ev s)) \<and>
     (endTimeRef s = Some e \<and> e \<noteq> 0 \<and> e \<le> now \<longrightarrow>
        updateTimer ev now s = updateTimer_plain now s \<and>
        inserts (updateTimer ev now s) = inserts s \<and>
        console_errors (updateTimer ev now s) = console_errors s)"
proof
  assume a: "getUser ev = Returns None"
  have 1: "saveSession_try ev m s = Inr s" using a by (simp add: saveSession_try_def)
  have 2: "saveSession ev m s = s" using a by (rule anonymous_skip(1))
  have 3: "handleSkip ev s = handleSkip_plain s" for s using a by (rule anonymous_skip(2))
  have 4: "inserts (handleSkip ev s) = inserts s" for s
    using a by (simp add: handleSkip_inserts)
  have 5: "console_errors (handleSkip ev s) = console_errors s" for s
    by (simp add: handleSkip_def Let_def handleModeChange_def toast_def anonymous_skip(1) [OF a])
  have 6: "mode s = work \<longrightarrow>
        completedSessions (handleSkip ev s) = completedSessions s + 1 \<and>
        mode (handleSkip ev s) = (if (completedSessions s + 1) mod 4 = 0 then longBreak else break) \<and>
        timeLeft (handleSkip ev s) = TIMES (mode (handleSkip ev s)) \<and>
        \<not> isRunning (handleSkip ev s)"
    using handleSkip_timer [of ev s] by (simp add: timer_state_def split: if_splits)
  have 7: "endTimeRef s = Some e \<and> e \<noteq> 0 \<and> e \<le> now \<longrightarrow>
        updateTimer ev now s = updateTimer_plain now s \<and>
        inserts (updateTimer ev now s) = inserts s \<and>
        console_errors (updateTimer ev now s) = console_errors s"
  proof
    assume b: "endTimeRef s = Some e \<and> e \<noteq> 0 \<and> e \<le> now"
    let ?stop = "playNotification (s\<lparr>timeLeft := 0, isRunning := False, endTimeRef := None\<rparr>)"
    have u: "updateTimer ev now s = handleSkip ev ?stop"
      and p: "updateTimer_plain now s = handleSkip_plain ?stop"
      using b by (simp_all add: expiry_state)
    show "updateTimer ev now s = updateTimer_plain now s \<and>
        inserts (updateTimer ev now s) = inserts s \<and>
        console_errors (updateTimer ev now s) = console_errors s"
      unfolding u p using 3 [of ?stop] 4 [of ?stop] 5 [of ?stop]
      by (simp add: playNotification_def)
  qed
  from 1 2 3 [of s] 4 [of s] 5 [of s] 6 7
  show "saveSession_try ev m s = Inr s \<and>
     saveSession ev m s = s \<and>
     handleSkip ev s = handleSkip_plain s \<and>
     inserts (handleSkip ev s) = inserts s \<and>
     console_errors (handleSkip ev s) = console_errors s \<and>
     (mode s = work \<longrightarrow>
        completedSessions (handleSkip ev s) = completedSessions s + 1 \<and>
        mode (handleSkip ev s) = (if (completedSessions s + 1) mod 4 = 0 then longBreak else break) \<and>
        timeLeft (handleSkip ev s) = TIMES (mode (handleSkip ev s)) \<and>
        \<not> isRunning (handleSkip ev s)) \<and>
     (endTimeRef s = Some e \<and> e \<noteq> 0 \<and> e \<le> now \<longrightarrow>
        updateTimer ev now s = updateTimer_plain now s \<and>
        inserts (updateTimer ev now s) = inserts s \<and>
        console_errors (updateTimer ev now s) = console_errors s)"
    by blast
qed

text \<open>C9 at the first work session with nobody signed in.\<close>

theorem C9_no_user_no_write_witness:
  "getUser anonymous = Returns None \<and> mode (handleStart 1000 initial) = work \<and>
   endTimeRef (handleStart 1000 initial) = Some 1501000 \<and> (1501000::int) \<noteq> 0 \<and>
   (1501000::int) \<le> 1501000 \<and>
   inserts (handleSkip anonymous (handleStart 1000 initial)) = [] \<and>
   console_errors (handleSkip anonymous (handleStart 1000 initial)) = 0 \<and>
   completedSessions (handleSkip anonymous (handleStart 1000 initial)) = 1 \<and>
   mode (handleSkip anonymous (handleStart 1000 initial)) = break \<and>
   inserts (updateTimer anonymous 1501000 (handleStart 1000 initial)) = [] \<and>
   completedSessions (updateTimer anonymous 1501000 (handleStart 1000 initial)) = 1"
  using C9_no_user_no_write [of anonymous work "handleStart 1000 initial" 1501000 1501000]
  by (simp add: initial_def anonymous_def handleStart_def handleSkip_def handleSkip_plain_def
      Let_def handleModeChange_def toast_def saveSession_def saveSession_try_def updateTimer_def
      updateTimer_plain_def remaining_def ceil1000_def playNotification_def
      SESSIONS_UNTIL_LONG_BREAK_def)

text \<open>
  C10. The row built for a work session has the mode \<open>pomodoro\<close>, which the constraint of
  the table accepts; every row handed to the store in any run of the hook from its
  initial state is such a row, and a run keeps it so from any state.
\<close>

theorem C10_inserted_mode_is_pomodoro:
  "row_mode (study_session ev uid work) = ''pomodoro'' \<and>
   study_sessions_mode_check (study_session ev uid work) \<and>
   list_all (\<lambda>r. row_mode r = ''pomodoro'' \<and> study_sessions_mode_check r) (inserts (run xs initial)) \<and>
   (list_all (\<lambda>r. row_mode r = ''pomodoro'' \<and> study_sessions_mode_check r) (inserts s) \<longrightarrow>
      list_all (\<lambda>r. row_mode r = ''pomodoro'' \<and> study_sessions_mode_check r) (inserts (run xs s)))"
proof (intro conjI impI)
  show "row_mode (study_session ev uid work) = ''pomodoro''" by (rule study_session_work(1))
  show "study_sessions_mode_check (study_session ev uid work)" by (rule study_session_work(3))
  have "list_all (\<lambda>r. row_mode r = ''pomodoro'' \<and> study_sessions_mode_check r) (inserts initial)"
    by (simp add: initial_def)
  then show "list_all (\<lambda>r. row_mode r = ''pomodoro'' \<and> study_sessions_mode_check r) (inserts (run xs initial))"
    by (rule run_inserts) (simp add: study_session_work)
next
  assume "list_all (\<lambda>r. row_mode r = ''pomodoro'' \<and> study_sessions_mode_check r) (inserts s)"
  then show "list_all (\<lambda>r. row_mode r = ''pomodoro'' \<and> study_sessions_mode_check r) (inserts (run xs s))"
    by (rule run_inserts) (simp add: study_session_work)
qed

text \<open>C10 at a run of two work sessions.\<close>

theorem C10_inserted_mode_is_pomodoro_witness:
  "list_all (\<lambda>r. row_mode r = ''pomodoro'' \<and> study_sessions_mode_check r) (inserts initial) \<and>
   map row_mode (inserts (run two_sessions initial)) = [''pomodoro'', ''pomodoro''] \<and>
   mode (run two_sessions initial) = work \<and> completedSessions (run two_sessions initial) = 2"
  using C10_inserted_mode_is_pomodoro [of ev0 "''u1''" two_sessions initial]
  by (simp add: two_sessions_def initial_def ev0_def handleStart_def updateTimer_def
      handleVisibilityChange_def remaining_def ceil1000_def Let_def handleSkip_def
      handleModeChange_def toast_def playNotification_def saveSession_def saveSession_try_def
      study_session_def SESSIONS_UNTIL_LONG_BREAK_def)

subsection \<open>Changing the mode\<close>

text \<open>
  C8. For every mode \<open>m\<close> and every state, \<open>handleModeChange m\<close> sets the mode to \<open>m\<close>, the
  remaining seconds to the duration of \<open>m\<close>, stops the timer and clears the end time; the
  count of completed sessions is as before and no row is handed to the store.
\<close>

theorem C8_changeMode_effect:
  "mode (handleModeChange m s) = m \<and>
   timeLeft (handleModeChange m s) = TIMES m \<and>
   isRunning (handleModeChange m s) = False \<and>
   endTimeRef (handleModeChange m s) = None \<and>
   completedSessions (handleModeChange m s) = completedSessions s \<and>
   inserts (handleModeChange m s) = inserts s \<and>
   notifications (handleModeChange m s) = notifications s \<and>
   toasts (handleModeChange m s) = toasts s \<and>
   console_errors (handleModeChange m s) = console_errors s"
  by (simp add: handleModeChange_def)

end
